theory Spec2Isabelle
  imports Complex_Main
begin

section \<open>Checkpoint store of strix (strix/telemetry/checkpoint.py)\<close>

text \<open>
  A shallow embedding of \<^verbatim>\<open>save_checkpoint\<close>, \<^verbatim>\<open>load_checkpoint\<close>,
  \<^verbatim>\<open>can_resume\<close> and \<^verbatim>\<open>delete_checkpoint\<close>. Python values are a datatype,
  a raised exception is the left summand of a result, and the file system is a map from
  paths to file contents that every operation takes and returns. What the interpreter
  and the operating system decide (an I/O call failing, the process being interrupted)
  is an explicit parameter of each operation.
\<close>

subsection \<open>Python values\<close>

text \<open>
  A Python float is an IEEE double: a rational, or one of the three special values that
  \<^verbatim>\<open>json\<close> reads and writes as \<^verbatim>\<open>NaN\<close>, \<^verbatim>\<open>Infinity\<close> and \<^verbatim>\<open>-Infinity\<close>.
\<close>

datatype float_val = Finite rat | NaN | PosInf | NegInf

text \<open>
  The values the module handles. A dictionary is an association list in insertion order
  with string keys (the keys of a Python dictionary are distinct; dictionaries with keys
  of other types are outside the model). \<open>PObj c n\<close> is an instance of a class \<open>c\<close>
  that \<^verbatim>\<open>json\<close> has no encoding for and that has no method \<^verbatim>\<open>get\<close>; \<open>n\<close> is
  what \<^verbatim>\<open>len\<close> returns for it, \<open>None\<close> when it has no length (a set of two
  elements is \<open>PObj ''set'' (Some 2)\<close>, a \<^verbatim>\<open>Path\<close> is \<open>PObj ''Path'' None\<close>).
\<close>

datatype pyval =
    PNone
  | PBool bool
  | PInt int
  | PFloat float_val
  | PStr string
  | PList "pyval list"
  | PTuple "pyval list"
  | PDict "(string \<times> pyval) list"
  | PObj string "nat option"

text \<open>
  The exception classes that occur. \<^verbatim>\<open>json.JSONDecodeError\<close> and
  \<^verbatim>\<open>UnicodeDecodeError\<close> are subclasses of \<^verbatim>\<open>ValueError\<close>,
  \<^verbatim>\<open>RecursionError\<close> is a subclass of \<^verbatim>\<open>RuntimeError\<close>, and the others are
  unrelated to each other. \<^verbatim>\<open>KeyboardInterrupt\<close> stands for an interruption of the
  process, \<open>OtherError c\<close> for any other exception class \<open>c\<close>.
\<close>

datatype exn =
    OSError
  | RuntimeError
  | TypeError
  | ValueError
  | KeyError
  | AttributeError
  | JSONDecodeError
  | UnicodeDecodeError
  | RecursionError
  | KeyboardInterrupt
  | OtherError string

fun exn_base :: "exn \<Rightarrow> exn option" where
  "exn_base JSONDecodeError = Some ValueError"
| "exn_base UnicodeDecodeError = Some ValueError"
| "exn_base RecursionError = Some RuntimeError"
| "exn_base e = None"

definition isinstance_exn :: "exn \<Rightarrow> exn \<Rightarrow> bool" where
  "isinstance_exn e c = (e = c \<or> exn_base e = Some c)"

text \<open>\<^verbatim>\<open>except (C1, ..., Cn)\<close> handles \<open>e\<close>.\<close>

definition caught :: "exn list \<Rightarrow> exn \<Rightarrow> bool" where
  "caught handlers e = list_ex (isinstance_exn e) handlers"

text \<open>
  Truth value of a Python value (\<^verbatim>\<open>if x\<close>, \<^verbatim>\<open>x or y\<close>): an object with a length
  is true when the length is not zero, any other object is true.
\<close>

fun py_truthy :: "pyval \<Rightarrow> bool" where
  "py_truthy PNone = False"
| "py_truthy (PBool b) = b"
| "py_truthy (PInt i) = (i \<noteq> 0)"
| "py_truthy (PFloat (Finite r)) = (r \<noteq> 0)"
| "py_truthy (PFloat f) = True"
| "py_truthy (PStr s) = (s \<noteq> [])"
| "py_truthy (PList xs) = (xs \<noteq> [])"
| "py_truthy (PTuple xs) = (xs \<noteq> [])"
| "py_truthy (PDict kvs) = (kvs \<noteq> [])"
| "py_truthy (PObj c None) = True"
| "py_truthy (PObj c (Some n)) = (n \<noteq> 0)"

text \<open>\<^verbatim>\<open>len(x)\<close>: a \<^verbatim>\<open>TypeError\<close> for a value without a length.\<close>

fun py_len :: "pyval \<Rightarrow> exn + nat" where
  "py_len (PStr s) = Inr (length s)"
| "py_len (PList xs) = Inr (length xs)"
| "py_len (PTuple xs) = Inr (length xs)"
| "py_len (PDict kvs) = Inr (length kvs)"
| "py_len (PObj c (Some n)) = Inr n"
| "py_len v = Inl TypeError"

text \<open>
  \<^verbatim>\<open>x == n\<close> for an integer \<open>n\<close>: Python compares numbers by value across
  \<^verbatim>\<open>bool\<close>, \<^verbatim>\<open>int\<close> and \<^verbatim>\<open>float\<close>; no other value equals an integer.
\<close>

fun py_eq_int :: "pyval \<Rightarrow> int \<Rightarrow> bool" where
  "py_eq_int (PInt i) n = (i = n)"
| "py_eq_int (PBool b) n = ((if b then 1 else 0) = n)"
| "py_eq_int (PFloat (Finite r)) n = (r = of_int n)"
| "py_eq_int v n = False"

text \<open>\<^verbatim>\<open>d.get(k, default)\<close> on a dictionary.\<close>

definition dict_get :: "(string \<times> pyval) list \<Rightarrow> string \<Rightarrow> pyval \<Rightarrow> pyval" where
  "dict_get kvs k dflt = (case map_of kvs k of None \<Rightarrow> dflt | Some v \<Rightarrow> v)"

text \<open>
  \<^verbatim>\<open>x.get(k, default)\<close> on any value: only a dictionary has the attribute
  \<^verbatim>\<open>get\<close>, every other value of the model raises \<^verbatim>\<open>AttributeError\<close>.
\<close>

fun py_get :: "pyval \<Rightarrow> string \<Rightarrow> pyval \<Rightarrow> exn + pyval" where
  "py_get (PDict kvs) k dflt = Inr (dict_get kvs k dflt)"
| "py_get v k dflt = Inl AttributeError"

subsection \<open>The json module\<close>

text \<open>
  \<^verbatim>\<open>json.dump\<close> raises \<^verbatim>\<open>TypeError\<close> on a value it has no encoding for
  (\<open>json_serializable v\<close>: every part of \<open>v\<close> has one); it writes a tuple as an
  array. \<open>json_image v\<close> is the value \<^verbatim>\<open>json.load\<close> returns for the text
  \<^verbatim>\<open>json.dump\<close> wrote for \<open>v\<close>. The two limits of the interpreter that make the
  encoder and the parser raise on an encodable value follow below.
\<close>

fun json_serializable :: "pyval \<Rightarrow> bool" where
  "json_serializable (PList xs) = list_all json_serializable xs"
| "json_serializable (PTuple xs) = list_all json_serializable xs"
| "json_serializable (PDict kvs) = list_all (\<lambda>kv. json_serializable (snd kv)) kvs"
| "json_serializable (PObj c n) = False"
| "json_serializable v = True"

fun json_image :: "pyval \<Rightarrow> pyval" where
  "json_image (PList xs) = PList (map json_image xs)"
| "json_image (PTuple xs) = PList (map json_image xs)"
| "json_image (PDict kvs) = PDict (map (\<lambda>kv. (fst kv, json_image (snd kv))) kvs)"
| "json_image v = v"

text \<open>
  The interpreter converts an integer to or from decimal text only when it has at most
  \<^verbatim>\<open>sys.get_int_max_str_digits()\<close> digits, 4300 unless the interpreter was started with
  another limit; beyond that \<^verbatim>\<open>json.dump\<close> and \<^verbatim>\<open>json.load\<close> raise
  \<^verbatim>\<open>ValueError\<close>.
\<close>

definition INT_MAX_STR_DIGITS :: nat where
  "INT_MAX_STR_DIGITS = 4300"

definition int_to_str_ok :: "int \<Rightarrow> bool" where
  "int_to_str_ok i = (\<bar>i\<bar> < 10 ^ INT_MAX_STR_DIGITS)"

fun ints_convertible :: "pyval \<Rightarrow> bool" where
  "ints_convertible (PInt i) = int_to_str_ok i"
| "ints_convertible (PList xs) = list_all ints_convertible xs"
| "ints_convertible (PTuple xs) = list_all ints_convertible xs"
| "ints_convertible (PDict kvs) = list_all (\<lambda>kv. ints_convertible (snd kv)) kvs"
| "ints_convertible v = True"

text \<open>
  The nesting depth of a value: the encoder and the parser of \<^verbatim>\<open>json\<close> recurse once
  for every list, tuple and dictionary inside another, the empty ones included.
\<close>

fun py_depth :: "pyval \<Rightarrow> nat" where
  "py_depth (PList xs) = Suc (foldr max (map py_depth xs) 0)"
| "py_depth (PTuple xs) = Suc (foldr max (map py_depth xs) 0)"
| "py_depth (PDict kvs) = Suc (foldr max (map (\<lambda>kv. py_depth (snd kv)) kvs) 0)"
| "py_depth v = 0"

text \<open>
  A value is JSON-representable when it is built from \<^verbatim>\<open>null\<close>, booleans, integers,
  finite numbers, strings, arrays and objects (dictionaries, whose keys are distinct)
  only.
\<close>

fun json_representable :: "pyval \<Rightarrow> bool" where
  "json_representable (PList xs) = list_all json_representable xs"
| "json_representable (PDict kvs) =
     (distinct (map fst kvs) \<and> list_all (\<lambda>kv. json_representable (snd kv)) kvs)"
| "json_representable (PTuple xs) = False"
| "json_representable (PObj c n) = False"
| "json_representable (PFloat (Finite r)) = True"
| "json_representable (PFloat f) = False"
| "json_representable v = True"

subsection \<open>Files\<close>

text \<open>
  A path is the list of its components. The content of a file is known up to what
  \<^verbatim>\<open>json.load\<close> makes of it: \<open>Doc v\<close> is a text that parses to the value \<open>v\<close>,
  \<open>Malformed\<close> a text that is not a JSON document (the empty file and every proper
  prefix of a serialized object among them), \<open>NotUtf8\<close> bytes that are not UTF-8.
  The values in a \<open>Doc\<close> are those of JSON: no tuple and no \<open>PObj\<close>.
\<close>

type_synonym path = "string list"

datatype content = Doc pyval | Malformed | NotUtf8

type_synonym filesystem = "path \<Rightarrow> content option"

text \<open>
  The I/O calls of the module. The environment of a call of one of the module's
  functions says, for each I/O operation, whether it succeeds (\<open>None\<close>) or raises
  (\<open>Some e\<close>: \<open>OSError\<close> for an I/O error, \<open>KeyboardInterrupt\<close> for an
  interruption), and how deep a value \<^verbatim>\<open>json\<close> can encode or parse before the
  interpreter's recursion limit is reached (the limit and the depth of the stack at the
  call decide it). Each function of the module makes each I/O call at most once. \<^verbatim>\<open>Path.exists\<close> raises on some I/O errors in Python 3.11 and
  answers false on them from Python 3.12 on; both functions that call it do the same in
  the two cases (the handler of an \<open>OSError\<close> returns what the absent file returns).
\<close>

datatype io_op = OpExists | OpOpenRead | OpRead | OpOpenWrite | OpWrite | OpReplace | OpUnlink

record io_env =
  faults :: "io_op \<Rightarrow> exn option"
  nesting_limit :: nat

definition no_faults :: io_env where
  "no_faults = \<lparr>faults = (\<lambda>op. None), nesting_limit = 900\<rparr>"

definition io_errors_only :: "io_env \<Rightarrow> bool" where
  "io_errors_only env =
     list_all (\<lambda>op. faults env op = None \<or> faults env op = Some OSError)
       [OpExists, OpOpenRead, OpRead, OpOpenWrite, OpWrite, OpReplace, OpUnlink]"

text \<open>
  \<^verbatim>\<open>json\<close> can encode and can parse the value in this environment: no integer is
  too long and the nesting is within the limit.
\<close>

definition within_limits :: "io_env \<Rightarrow> pyval \<Rightarrow> bool" where
  "within_limits env v = (ints_convertible v \<and> py_depth v \<le> nesting_limit env)"

text \<open>\<^verbatim>\<open>CHECKPOINT_VERSION = 1\<close>\<close>

definition CHECKPOINT_VERSION :: int where
  "CHECKPOINT_VERSION = 1"

text \<open>\<^verbatim>\<open>return run_dir / "checkpoint.json"\<close>\<close>

definition get_checkpoint_path :: "path \<Rightarrow> path" where
  "get_checkpoint_path run_dir = run_dir @ [''checkpoint.json'']"

text \<open>
  \<^verbatim>\<open>PurePath.suffix\<close>: the part of the name from its last dot, when that dot is
  neither the first nor the last character; \<^verbatim>\<open>PurePath.with_suffix\<close>: the path with
  that part replaced, a \<^verbatim>\<open>ValueError\<close> for an invalid suffix or an empty name.
\<close>

definition path_suffix :: "string \<Rightarrow> string" where
  "path_suffix name =
     (let after = rev (takeWhile (\<lambda>c. c \<noteq> CHR ''.'') (rev name))
      in if CHR ''.'' \<in> set name \<and> after \<noteq> [] \<and> length after + 1 < length name
         then CHR ''.'' # after else [])"

definition with_suffix :: "path \<Rightarrow> string \<Rightarrow> exn + path" where
  "with_suffix p sfx =
     (if CHR ''/'' \<in> set sfx then Inl ValueError
      else if sfx = ''.'' then Inl ValueError
      else if sfx \<noteq> [] \<and> hd sfx \<noteq> CHR ''.'' then Inl ValueError
      else if p = [] then Inl ValueError
      else if last p = [] then Inl ValueError
      else let name = last p; old_suffix = path_suffix name
           in Inr (butlast p @
                [(if old_suffix = [] then name
                  else take (length name - length old_suffix) name) @ sfx]))"

subsection \<open>save_checkpoint\<close>

text \<open>
  The agent state is an object of a class that is not part of the module. The module
  calls \<^verbatim>\<open>agent_state.model_dump(mode='json')\<close> and reads
  \<^verbatim>\<open>agent_state.iteration\<close>; an object is given by what these two do: \<open>None\<close> when
  the attribute does not exist, and for the method either the exception it raises or
  the value it returns.
\<close>

record agent_obj =
  model_dump :: "(exn + pyval) option"
  iteration :: "pyval option"

text \<open>
  Lines 62 to 68, the checkpoint dictionary; \<open>now\<close> is
  \<^verbatim>\<open>datetime.now(UTC).isoformat()\<close>.
\<close>

definition build_checkpoint :: "string \<Rightarrow> agent_obj \<Rightarrow> pyval \<Rightarrow> pyval \<Rightarrow> exn + pyval" where
  "build_checkpoint now agent_state scan_config tracer_data =
     (case model_dump agent_state of
        None \<Rightarrow> Inl AttributeError
      | Some (Inl e) \<Rightarrow> Inl e
      | Some (Inr snapshot) \<Rightarrow>
          Inr (PDict
            [(''version'', PInt CHECKPOINT_VERSION),
             (''created_at'', PStr now),
             (''scan_config'', scan_config),
             (''agent_state'', snapshot),
             (''tracer_data'', if py_truthy tracer_data then tracer_data else PDict [])]))"

text \<open>\<^verbatim>\<open>temp_path.open("w", encoding="utf-8")\<close>: the file exists and is empty.\<close>

definition open_write :: "io_env \<Rightarrow> filesystem \<Rightarrow> path \<Rightarrow> (exn + unit) \<times> filesystem" where
  "open_write env fs p =
     (case faults env OpOpenWrite of
        Some e \<Rightarrow> (Inl e, fs)
      | None \<Rightarrow> (Inr (), fs(p \<mapsto> Malformed)))"

text \<open>
  \<^verbatim>\<open>json.dump(checkpoint, f, indent=2)\<close> and the end of the \<^verbatim>\<open>with\<close> block, on
  the file opened at \<open>p\<close>: when the encoder or a write fails the file keeps a part of
  the text. The encoder raises \<^verbatim>\<open>TypeError\<close> on a value without encoding,
  \<^verbatim>\<open>ValueError\<close> on an integer that is too long and \<^verbatim>\<open>RecursionError\<close> on a
  nesting that is too deep. When several of them apply the encoder raises for the one
  it meets first; the model takes them in this order (the handler of
  \<^verbatim>\<open>save_checkpoint\<close> treats the three alike).
\<close>

definition json_dump :: "io_env \<Rightarrow> filesystem \<Rightarrow> path \<Rightarrow> pyval \<Rightarrow> (exn + unit) \<times> filesystem" where
  "json_dump env fs p v =
     (if \<not> json_serializable v then (Inl TypeError, fs)
      else if \<not> ints_convertible v then (Inl ValueError, fs)
      else if nesting_limit env < py_depth v then (Inl RecursionError, fs)
      else case faults env OpWrite of
             Some e \<Rightarrow> (Inl e, fs)
           | None \<Rightarrow> (Inr (), fs(p \<mapsto> Doc (json_image v))))"

text \<open>
  \<^verbatim>\<open>src.replace(dst)\<close>: the atomic rename of the operating system; renaming a file
  onto itself changes nothing.
\<close>

definition path_replace :: "io_env \<Rightarrow> filesystem \<Rightarrow> path \<Rightarrow> path \<Rightarrow> (exn + unit) \<times> filesystem" where
  "path_replace env fs src dst =
     (case faults env OpReplace of
        Some e \<Rightarrow> (Inl e, fs)
      | None \<Rightarrow>
          (case fs src of
             None \<Rightarrow> (Inl OSError, fs)
           | Some c \<Rightarrow> (Inr (), (fs(src := None))(dst \<mapsto> c))))"

text \<open>Lines 59 to 73: everything before the rename. The result is the temporary path.\<close>

definition save_prepare ::
  "io_env \<Rightarrow> string \<Rightarrow> filesystem \<Rightarrow> path \<Rightarrow> agent_obj \<Rightarrow> pyval \<Rightarrow> pyval \<Rightarrow> (exn + path) \<times> filesystem" where
  "save_prepare env now fs run_dir agent_state scan_config tracer_data =
     (let checkpoint_path = get_checkpoint_path run_dir
      in case build_checkpoint now agent_state scan_config tracer_data of
           Inl e \<Rightarrow> (Inl e, fs)
         | Inr checkpoint \<Rightarrow>
             (case with_suffix checkpoint_path ''.tmp'' of
                Inl e \<Rightarrow> (Inl e, fs)
              | Inr temp_path \<Rightarrow>
                  (case open_write env fs temp_path of
                     (Inl e, fs1) \<Rightarrow> (Inl e, fs1)
                   | (Inr u, fs1) \<Rightarrow>
                       (case json_dump env fs1 temp_path checkpoint of
                          (Inl e, fs2) \<Rightarrow> (Inl e, fs2)
                        | (Inr u, fs2) \<Rightarrow> (Inr temp_path, fs2)))))"

text \<open>
  The body of the \<^verbatim>\<open>try\<close>: lines 59 to 73, the rename of line 76, and line 78,
  whose message reads \<^verbatim>\<open>agent_state.iteration\<close>.
\<close>

definition save_try ::
  "io_env \<Rightarrow> string \<Rightarrow> filesystem \<Rightarrow> path \<Rightarrow> agent_obj \<Rightarrow> pyval \<Rightarrow> pyval \<Rightarrow> (exn + unit) \<times> filesystem" where
  "save_try env now fs run_dir agent_state scan_config tracer_data =
     (case save_prepare env now fs run_dir agent_state scan_config tracer_data of
        (Inl e, fs2) \<Rightarrow> (Inl e, fs2)
      | (Inr temp_path, fs2) \<Rightarrow>
          (case path_replace env fs2 temp_path (get_checkpoint_path run_dir) of
             (Inl e, fs3) \<Rightarrow> (Inl e, fs3)
           | (Inr u, fs3) \<Rightarrow>
               (case iteration agent_state of
                  None \<Rightarrow> (Inl AttributeError, fs3)
                | Some i \<Rightarrow> (Inr (), fs3))))"

text \<open>
  \<^verbatim>\<open>except (OSError, RuntimeError, TypeError, ValueError)\<close>: the handler logs and
  returns. \<open>Inl e\<close> is an exception that reaches the caller.
\<close>

definition save_checkpoint ::
  "io_env \<Rightarrow> string \<Rightarrow> filesystem \<Rightarrow> path \<Rightarrow> agent_obj \<Rightarrow> pyval \<Rightarrow> pyval \<Rightarrow> (exn + unit) \<times> filesystem" where
  "save_checkpoint env now fs run_dir agent_state scan_config tracer_data =
     (case save_try env now fs run_dir agent_state scan_config tracer_data of
        (Inl e, fs') \<Rightarrow>
          if caught [OSError, RuntimeError, TypeError, ValueError] e then (Inr (), fs')
          else (Inl e, fs')
      | (Inr u, fs') \<Rightarrow> (Inr u, fs'))"

text \<open>
  An execution of \<^verbatim>\<open>save_checkpoint\<close> fails before the rename when lines 59 to 73
  raise, or the rename itself does.
\<close>

definition fails_before_rename ::
  "io_env \<Rightarrow> string \<Rightarrow> filesystem \<Rightarrow> path \<Rightarrow> agent_obj \<Rightarrow> pyval \<Rightarrow> pyval \<Rightarrow> bool" where
  "fails_before_rename env now fs run_dir agent_state scan_config tracer_data =
     (case save_prepare env now fs run_dir agent_state scan_config tracer_data of
        (Inl e, fs2) \<Rightarrow> True
      | (Inr temp_path, fs2) \<Rightarrow>
          (case path_replace env fs2 temp_path (get_checkpoint_path run_dir) of
             (Inl e, fs3) \<Rightarrow> True
           | (Inr u, fs3) \<Rightarrow> False))"

subsection \<open>load_checkpoint\<close>

text \<open>
  \<^verbatim>\<open>json.load(f)\<close> on an open file with the given content. On a well-formed
  document the parser raises \<^verbatim>\<open>ValueError\<close> for an integer that is too long and
  \<^verbatim>\<open>RecursionError\<close> for a nesting that is too deep (for the one it meets first
  when both apply; the model takes them in this order, and the handler of
  \<^verbatim>\<open>load_checkpoint\<close> catches neither).
\<close>

definition json_load :: "io_env \<Rightarrow> content \<Rightarrow> exn + pyval" where
  "json_load env c =
     (case faults env OpRead of
        Some e \<Rightarrow> Inl e
      | None \<Rightarrow>
          (case c of
             Doc v \<Rightarrow>
               if \<not> ints_convertible v then Inl ValueError
               else if nesting_limit env < py_depth v then Inl RecursionError
               else Inr v
           | Malformed \<Rightarrow> Inl JSONDecodeError
           | NotUtf8 \<Rightarrow> Inl UnicodeDecodeError))"

text \<open>
  The body of the \<^verbatim>\<open>try\<close>, lines 100 to 126. \<^verbatim>\<open>checkpoint.get("version")\<close> is
  the first use of the loaded value: it raises \<^verbatim>\<open>AttributeError\<close> unless the value
  is a dictionary, so the lines after it run on a dictionary.
\<close>

definition load_try :: "io_env \<Rightarrow> filesystem \<Rightarrow> path \<Rightarrow> exn + pyval option" where
  "load_try env fs run_dir =
     (let checkpoint_path = get_checkpoint_path run_dir
      in case faults env OpExists of
           Some e \<Rightarrow> Inl e
         | None \<Rightarrow>
             (case fs checkpoint_path of
                None \<Rightarrow> Inr None
              | Some c \<Rightarrow>
                  (case faults env OpOpenRead of
                     Some e \<Rightarrow> Inl e
                   | None \<Rightarrow>
                       (case json_load env c of
                          Inl e \<Rightarrow> Inl e
                        | Inr checkpoint \<Rightarrow>
                            (case checkpoint of
                               PDict kvs \<Rightarrow>
                                 (let version = dict_get kvs ''version'' PNone
                                  in if \<not> py_eq_int version CHECKPOINT_VERSION then Inr None
                                     else let required = [''scan_config'', ''agent_state''];
                                              missing = filter (\<lambda>field. field \<notin> set (map fst kvs)) required
                                          in if missing \<noteq> [] then Inr None
                                             else Inr (Some checkpoint))
                             | _ \<Rightarrow> Inl AttributeError)))))"

text \<open>\<^verbatim>\<open>except (OSError, json.JSONDecodeError, KeyError, TypeError): return None\<close>\<close>

definition load_checkpoint :: "io_env \<Rightarrow> filesystem \<Rightarrow> path \<Rightarrow> exn + pyval option" where
  "load_checkpoint env fs run_dir =
     (case load_try env fs run_dir of
        Inl e \<Rightarrow>
          if caught [OSError, JSONDecodeError, KeyError, TypeError] e then Inr None
          else Inl e
      | Inr r \<Rightarrow> Inr r)"

subsection \<open>can_resume\<close>

text \<open>Lines 144 to 167. There is no \<^verbatim>\<open>try\<close> in this function.\<close>

definition can_resume :: "io_env \<Rightarrow> filesystem \<Rightarrow> path \<Rightarrow> pyval \<Rightarrow> exn + bool" where
  "can_resume env fs run_dir current_scan_config =
     (case load_checkpoint env fs run_dir of
        Inl e \<Rightarrow> Inl e
      | Inr None \<Rightarrow> Inr False
      | Inr (Some checkpoint) \<Rightarrow>
          if \<not> py_truthy checkpoint then Inr False
          else
            (case py_get checkpoint ''agent_state'' (PDict []) of
               Inl e \<Rightarrow> Inl e
             | Inr agent_state_data \<Rightarrow>
                 (case py_get agent_state_data ''completed'' (PBool False) of
                    Inl e \<Rightarrow> Inl e
                  | Inr completed \<Rightarrow>
                      if py_truthy completed then Inr False
                      else
                        (case py_get checkpoint ''scan_config'' (PDict []) of
                           Inl e \<Rightarrow> Inl e
                         | Inr saved_config \<Rightarrow>
                             (case py_get saved_config ''targets'' (PList []) of
                                Inl e \<Rightarrow> Inl e
                              | Inr saved_targets \<Rightarrow>
                                  (case py_get current_scan_config ''targets'' (PList []) of
                                     Inl e \<Rightarrow> Inl e
                                   | Inr current_targets \<Rightarrow>
                                       (case py_len saved_targets of
                                          Inl e \<Rightarrow> Inl e
                                        | Inr n \<Rightarrow>
                                            (case py_len current_targets of
                                               Inl e \<Rightarrow> Inl e
                                             | Inr m \<Rightarrow>
                                                 if n \<noteq> m then Inr False
                                                 else Inr True))))))))"

subsection \<open>delete_checkpoint\<close>

text \<open>Lines 181 to 184, then \<^verbatim>\<open>except OSError\<close>.\<close>

definition delete_try :: "io_env \<Rightarrow> filesystem \<Rightarrow> path \<Rightarrow> (exn + unit) \<times> filesystem" where
  "delete_try env fs run_dir =
     (let checkpoint_path = get_checkpoint_path run_dir
      in case faults env OpExists of
           Some e \<Rightarrow> (Inl e, fs)
         | None \<Rightarrow>
             (case fs checkpoint_path of
                None \<Rightarrow> (Inr (), fs)
              | Some c \<Rightarrow>
                  (case faults env OpUnlink of
                     Some e \<Rightarrow> (Inl e, fs)
                   | None \<Rightarrow> (Inr (), fs(checkpoint_path := None)))))"

definition delete_checkpoint :: "io_env \<Rightarrow> filesystem \<Rightarrow> path \<Rightarrow> (exn + unit) \<times> filesystem" where
  "delete_checkpoint env fs run_dir =
     (case delete_try env fs run_dir of
        (Inl e, fs') \<Rightarrow> if caught [OSError] e then (Inr (), fs') else (Inl e, fs')
      | (Inr u, fs') \<Rightarrow> (Inr u, fs'))"

subsection \<open>Example inputs\<close>

text \<open>
  A run directory \<^verbatim>\<open>run\<close>, an agent state at iteration 5 that is not completed, a
  scan of one target, and the checkpoint that a save of these leaves on disk. In the
  example environments \<^verbatim>\<open>json\<close> has the stack for 900 levels of nesting.
\<close>

definition no_files :: filesystem where
  "no_files = (\<lambda>p. None)"

definition example_snapshot :: pyval where
  "example_snapshot = PDict [(''iteration'', PInt 5), (''completed'', PBool False)]"

definition example_agent :: agent_obj where
  "example_agent = \<lparr>model_dump = Some (Inr example_snapshot), iteration = Some (PInt 5)\<rparr>"

definition example_config :: pyval where
  "example_config = PDict [(''targets'', PList [PStr ''a.com''])]"

definition example_checkpoint :: pyval where
  "example_checkpoint =
     PDict [(''version'', PInt 1),
            (''created_at'', PStr ''2026-01-01T00:00:00+00:00''),
            (''scan_config'', example_config),
            (''agent_state'', example_snapshot),
            (''tracer_data'', PDict [])]"

definition example_fs :: filesystem where
  "example_fs = no_files([''run'', ''checkpoint.json''] \<mapsto> Doc example_checkpoint)"

text \<open>An environment in which writing to a file fails, as on a full disk.\<close>

definition disk_full :: io_env where
  "disk_full =
     \<lparr>faults = (\<lambda>op. if op = OpWrite then Some OSError else None), nesting_limit = 900\<rparr>"

text \<open>An environment in which removing a file fails, as without permission.\<close>

definition unlink_denied :: io_env where
  "unlink_denied =
     \<lparr>faults = (\<lambda>op. if op = OpUnlink then Some OSError else None), nesting_limit = 900\<rparr>"

section \<open>Properties\<close>

subsection \<open>Paths, files and environments\<close>

lemma temp_path_of_checkpoint:
  "with_suffix (get_checkpoint_path run_dir) ''.tmp'' = Inr (run_dir @ [''checkpoint.tmp''])"
  by (simp add: with_suffix_def get_checkpoint_path_def path_suffix_def)

lemma temp_path_differs:
  "run_dir @ [''checkpoint.tmp''] \<noteq> get_checkpoint_path run_dir"
  by (simp add: get_checkpoint_path_def)

lemma open_write_other:
  "q \<noteq> p \<Longrightarrow> snd (open_write env fs p) q = fs q"
  by (simp add: open_write_def split: option.splits)

lemma json_dump_other:
  "q \<noteq> p \<Longrightarrow> snd (json_dump env fs p v) q = fs q"
  by (simp add: json_dump_def split: option.splits)

lemma io_errors_only_caught:
  "io_errors_only env \<Longrightarrow> faults env op = Some e \<Longrightarrow> e = OSError"
  by (cases op) (auto simp: io_errors_only_def)

lemma caught_by_save:
  "caught [OSError, RuntimeError, TypeError, ValueError] OSError"
  "caught [OSError, RuntimeError, TypeError, ValueError] TypeError"
  "caught [OSError, RuntimeError, TypeError, ValueError] ValueError"
  "caught [OSError, RuntimeError, TypeError, ValueError] RecursionError"
  by (simp_all add: caught_def isinstance_exn_def)

lemma io_errors_only_examples:
  "io_errors_only no_faults" "io_errors_only disk_full" "io_errors_only unlink_denied"
  by (simp_all add: io_errors_only_def no_faults_def disk_full_def unlink_denied_def)

subsection \<open>The limits of the interpreter\<close>

lemma small_int_to_str_ok:
  "\<bar>i\<bar> < 10 \<Longrightarrow> int_to_str_ok i"
proof -
  assume "\<bar>i\<bar> < 10"
  moreover have "(10::int) ^ 1 \<le> 10 ^ INT_MAX_STR_DIGITS"
    by (rule power_increasing) (simp_all add: INT_MAX_STR_DIGITS_def)
  ultimately show ?thesis
    by (simp add: int_to_str_ok_def)
qed

lemma json_image_ints:
  "ints_convertible (json_image v) = ints_convertible v"
  by (induction v rule: json_image.induct) (auto simp: list_all_iff)

lemma json_image_depth:
  "py_depth (json_image v) = py_depth v"
proof (induction v rule: json_image.induct)
  case (1 xs)
  then have "map (py_depth \<circ> json_image) xs = map py_depth xs"
    by simp
  then show ?case
    by (simp only: json_image.simps py_depth.simps map_map)
next
  case (2 xs)
  then have "map (py_depth \<circ> json_image) xs = map py_depth xs"
    by simp
  then show ?case
    by (simp only: json_image.simps py_depth.simps map_map)
next
  case (3 kvs)
  then have "map ((\<lambda>kv. py_depth (snd kv)) \<circ> (\<lambda>kv. (fst kv, json_image (snd kv)))) kvs
               = map (\<lambda>kv. py_depth (snd kv)) kvs"
    by simp
  then show ?case
    by (simp only: json_image.simps py_depth.simps map_map)
qed simp_all

lemma within_limits_json_image:
  "within_limits env (json_image v) = within_limits env v"
  by (simp add: within_limits_def json_image_ints json_image_depth)

lemma within_limits_examples:
  "within_limits no_faults example_checkpoint"
  "within_limits no_faults example_config"
  "within_limits no_faults example_snapshot"
  by (simp_all add: within_limits_def no_faults_def example_checkpoint_def example_config_def
      example_snapshot_def small_int_to_str_ok)

subsection \<open>What save_checkpoint does to the files\<close>

lemma save_prepare_keeps_checkpoint:
  "snd (save_prepare env now fs run_dir ag cfg tr) (get_checkpoint_path run_dir)
     = fs (get_checkpoint_path run_dir)"
proof (cases "build_checkpoint now ag cfg tr")
  case (Inl e)
  then show ?thesis by (simp add: save_prepare_def)
next
  case (Inr c)
  let ?t = "run_dir @ [''checkpoint.tmp'']"
  have d: "get_checkpoint_path run_dir \<noteq> ?t"
    using temp_path_differs [of run_dir] by simp
  obtain r1 fs1 where o: "open_write env fs ?t = (r1, fs1)"
    by (cases "open_write env fs ?t")
  have k1: "fs1 (get_checkpoint_path run_dir) = fs (get_checkpoint_path run_dir)"
    using open_write_other [OF d, of env fs] o by simp
  obtain r2 fs2 where j: "json_dump env fs1 ?t c = (r2, fs2)"
    by (cases "json_dump env fs1 ?t c")
  have k2: "fs2 (get_checkpoint_path run_dir) = fs1 (get_checkpoint_path run_dir)"
    using json_dump_other [OF d, of env fs1 c] j by simp
  show ?thesis
    using Inr o j k1 k2
    by (cases r1; cases r2) (simp_all add: save_prepare_def temp_path_of_checkpoint)
qed

lemma path_replace_failure:
  "fst (path_replace env fs src dst) = Inl e \<Longrightarrow> snd (path_replace env fs src dst) = fs"
  by (simp add: path_replace_def split: option.splits)

lemma save_checkpoint_files:
  "snd (save_checkpoint env now fs run_dir ag cfg tr) = snd (save_try env now fs run_dir ag cfg tr)"
  by (simp add: save_checkpoint_def split: prod.splits sum.splits)

lemma save_try_success_files:
  assumes "build_checkpoint now ag cfg tr = Inr c" and "json_serializable c"
    and "within_limits env c"
    and "faults env OpOpenWrite = None" and "faults env OpWrite = None"
    and "faults env OpReplace = None"
  shows "snd (save_try env now fs run_dir ag cfg tr) (get_checkpoint_path run_dir)
           = Some (Doc (json_image c))"
  using assms
  by (simp add: save_try_def save_prepare_def temp_path_of_checkpoint open_write_def
      json_dump_def path_replace_def within_limits_def split: option.splits)

subsection \<open>What load_checkpoint returns\<close>

lemma load_checkpoint_reads_one_file:
  "fs1 (get_checkpoint_path run_dir) = fs2 (get_checkpoint_path run_dir) \<Longrightarrow>
   load_checkpoint env fs1 run_dir = load_checkpoint env fs2 run_dir"
  by (simp add: load_checkpoint_def load_try_def Let_def cong: option.case_cong)

lemma load_try_Some:
  "load_try env fs run_dir = Inr (Some c) \<longleftrightarrow>
     (faults env OpExists = None \<and> faults env OpOpenRead = None \<and> faults env OpRead = None
      \<and> fs (get_checkpoint_path run_dir) = Some (Doc c)
      \<and> within_limits env c
      \<and> (\<exists>kvs. c = PDict kvs
            \<and> py_eq_int (dict_get kvs ''version'' PNone) CHECKPOINT_VERSION
            \<and> ''scan_config'' \<in> fst ` set kvs \<and> ''agent_state'' \<in> fst ` set kvs))"
  by (auto simp: load_try_def json_load_def Let_def within_limits_def
      split: option.splits content.splits pyval.splits sum.splits if_splits)

lemma load_checkpoint_Some:
  "load_checkpoint env fs run_dir = Inr (Some c) \<longleftrightarrow> load_try env fs run_dir = Inr (Some c)"
  by (simp add: load_checkpoint_def split: sum.splits)

lemma load_checkpoint_accepts:
  assumes "fs (get_checkpoint_path run_dir) = Some (Doc (PDict kvs))"
    and "faults env OpExists = None" and "faults env OpOpenRead = None"
    and "faults env OpRead = None"
    and "within_limits env (PDict kvs)"
    and "py_eq_int (dict_get kvs ''version'' PNone) CHECKPOINT_VERSION"
    and "''scan_config'' \<in> fst ` set kvs" and "''agent_state'' \<in> fst ` set kvs"
  shows "load_checkpoint env fs run_dir = Inr (Some (PDict kvs))"
  using assms by (simp add: load_checkpoint_Some load_try_Some)

lemma load_checkpoint_rejects:
  assumes "fs (get_checkpoint_path run_dir) = Some (Doc (PDict kvs))"
    and "io_errors_only env"
    and "within_limits env (PDict kvs)"
    and "\<not> (py_eq_int (dict_get kvs ''version'' PNone) CHECKPOINT_VERSION
            \<and> ''scan_config'' \<in> fst ` set kvs \<and> ''agent_state'' \<in> fst ` set kvs)"
  shows "load_checkpoint env fs run_dir = Inr None"
proof -
  have os: "\<And>op e. faults env op = Some e \<Longrightarrow> e = OSError"
    using assms(2) io_errors_only_caught by blast
  show ?thesis
    using assms(1,3,4) os
    by (auto simp: load_checkpoint_def load_try_def json_load_def Let_def caught_def
        isinstance_exn_def within_limits_def split: option.splits sum.splits if_splits)
qed

lemma load_checkpoint_absent:
  assumes "fs (get_checkpoint_path run_dir) = None" and "io_errors_only env"
  shows "load_checkpoint env fs run_dir = Inr None"
proof -
  have os: "\<And>op e. faults env op = Some e \<Longrightarrow> e = OSError"
    using assms(2) io_errors_only_caught by blast
  show ?thesis
    using assms(1) os
    by (auto simp: load_checkpoint_def load_try_def Let_def caught_def isinstance_exn_def
        split: option.splits)
qed

lemma load_example_fs:
  "load_checkpoint no_faults example_fs [''run''] = Inr (Some example_checkpoint)"
proof -
  have f: "example_fs (get_checkpoint_path [''run'']) = Some (Doc example_checkpoint)"
    by (simp add: example_fs_def get_checkpoint_path_def)
  have w: "within_limits no_faults example_checkpoint"
    by (rule within_limits_examples)
  have n: "faults no_faults OpExists = None" "faults no_faults OpOpenRead = None"
      "faults no_faults OpRead = None"
    by (simp_all add: no_faults_def)
  show ?thesis
    using f w n unfolding example_checkpoint_def
    by (intro load_checkpoint_accepts) (simp_all add: dict_get_def CHECKPOINT_VERSION_def)
qed

lemma can_resume_after_load:
  assumes "load_checkpoint env fs run_dir = Inr (Some checkpoint)"
  shows "py_truthy checkpoint"
proof -
  from assms obtain kvs where "checkpoint = PDict kvs" "''agent_state'' \<in> fst ` set kvs"
    by (auto simp: load_checkpoint_Some load_try_Some)
  then show ?thesis by auto
qed

subsection \<open>A failed save leaves the checkpoint untouched\<close>

text \<open>
  C1. An execution of \<^verbatim>\<open>save_checkpoint\<close> that fails before the rename (the
  snapshot or the encoder raises, opening or writing the temporary file fails, the
  process is interrupted, or the rename itself fails) leaves the file at the checkpoint
  path as it was, so \<^verbatim>\<open>load_checkpoint\<close> afterwards returns what it would have
  returned before the save, whatever the environment of the load.
\<close>

theorem save_failure_keeps_checkpoint:
  assumes "fails_before_rename env now fs run_dir agent_state scan_config tracer_data"
  shows "snd (save_checkpoint env now fs run_dir agent_state scan_config tracer_data)
           (get_checkpoint_path run_dir) = fs (get_checkpoint_path run_dir)
       \<and> load_checkpoint env' (snd (save_checkpoint env now fs run_dir agent_state scan_config tracer_data)) run_dir
           = load_checkpoint env' fs run_dir"
proof -
  let ?p = "get_checkpoint_path run_dir"
  obtain r fs2 where sp: "save_prepare env now fs run_dir agent_state scan_config tracer_data = (r, fs2)"
    by (cases "save_prepare env now fs run_dir agent_state scan_config tracer_data")
  have k: "fs2 ?p = fs ?p"
    using save_prepare_keeps_checkpoint [of env now fs run_dir agent_state scan_config tracer_data] sp
    by simp
  have "snd (save_try env now fs run_dir agent_state scan_config tracer_data) ?p = fs ?p"
  proof (cases r)
    case (Inl e)
    then show ?thesis using sp k by (simp add: save_try_def)
  next
    case (Inr t)
    obtain r3 fs3 where pr: "path_replace env fs2 t ?p = (r3, fs3)"
      by (cases "path_replace env fs2 t ?p")
    from assms sp Inr pr obtain e where "r3 = Inl e"
      by (cases r3) (simp_all add: fails_before_rename_def)
    then have "fs3 = fs2"
      using path_replace_failure [of env fs2 t ?p e] pr by simp
    then show ?thesis
      using sp Inr pr \<open>r3 = Inl e\<close> k by (simp add: save_try_def)
  qed
  then have same: "snd (save_checkpoint env now fs run_dir agent_state scan_config tracer_data) ?p = fs ?p"
    by (simp add: save_checkpoint_files)
  show ?thesis
    using same
      load_checkpoint_reads_one_file
        [of "snd (save_checkpoint env now fs run_dir agent_state scan_config tracer_data)"
            run_dir fs env']
    by simp
qed

theorem save_failure_keeps_checkpoint_witness:
  "fails_before_rename disk_full ''2026-01-02T00:00:00+00:00'' example_fs [''run'']
     example_agent example_config PNone
   \<and> load_checkpoint no_faults
       (snd (save_checkpoint disk_full ''2026-01-02T00:00:00+00:00'' example_fs [''run'']
          example_agent example_config PNone)) [''run'']
     = Inr (Some example_checkpoint)"
proof -
  have h: "fails_before_rename disk_full ''2026-01-02T00:00:00+00:00'' example_fs [''run'']
     example_agent example_config PNone"
    by (simp add: fails_before_rename_def save_prepare_def build_checkpoint_def
        example_agent_def example_snapshot_def example_config_def temp_path_of_checkpoint
        open_write_def json_dump_def disk_full_def small_int_to_str_ok CHECKPOINT_VERSION_def)
  show ?thesis
    using h load_example_fs save_failure_keeps_checkpoint [OF h, of no_faults] by simp
qed

subsection \<open>Round trip of save and load\<close>

lemma json_representable_serializable:
  "json_representable v \<Longrightarrow> json_serializable v"
  by (induction v rule: json_representable.induct) (auto simp: list_all_iff)

lemma json_representable_image:
  "json_representable v \<Longrightarrow> json_image v = v"
  by (induction v rule: json_representable.induct) (auto simp: list_all_iff intro: map_idI)

text \<open>
  C2 (as amended). When the agent state has the snapshot interface and its snapshot is
  JSON-representable, the scan configuration is JSON-representable, the tracer data can
  be serialized, the checkpoint built from them is within the limits of the interpreter
  at the save and at the load (no integer of more than 4300 digits, a nesting within the
  recursion limit), and no I/O call of the save or of the load fails,
  \<^verbatim>\<open>save_checkpoint\<close> followed by \<^verbatim>\<open>load_checkpoint\<close> returns a checkpoint whose
  \<^verbatim>\<open>scan_config\<close> is the original configuration, whose \<^verbatim>\<open>agent_state\<close> is the
  snapshot and whose version is the current one.
\<close>

theorem save_then_load_roundtrip:
  assumes "model_dump agent_state = Some (Inr snapshot)"
    and "json_representable snapshot"
    and "json_representable scan_config"
    and "json_serializable tracer_data"
    and "build_checkpoint now agent_state scan_config tracer_data = Inr built"
    and "within_limits env built" and "within_limits env' built"
    and "faults env OpOpenWrite = None" and "faults env OpWrite = None"
    and "faults env OpReplace = None"
    and "faults env' OpExists = None" and "faults env' OpOpenRead = None"
    and "faults env' OpRead = None"
  shows "\<exists>checkpoint.
           load_checkpoint env'
             (snd (save_checkpoint env now fs run_dir agent_state scan_config tracer_data)) run_dir
             = Inr (Some checkpoint)
         \<and> py_get checkpoint ''scan_config'' PNone = Inr scan_config
         \<and> py_get checkpoint ''agent_state'' PNone = Inr snapshot
         \<and> py_get checkpoint ''version'' PNone = Inr (PInt CHECKPOINT_VERSION)"
proof -
  let ?tr = "if py_truthy tracer_data then tracer_data else PDict []"
  let ?c = "PDict [(''version'', PInt CHECKPOINT_VERSION), (''created_at'', PStr now),
                   (''scan_config'', scan_config), (''agent_state'', snapshot),
                   (''tracer_data'', ?tr)]"
  let ?kvs = "[(''version'', PInt CHECKPOINT_VERSION), (''created_at'', PStr now),
               (''scan_config'', scan_config), (''agent_state'', snapshot),
               (''tracer_data'', json_image ?tr)]"
  have b: "built = ?c"
    using assms(1,5) by (simp add: build_checkpoint_def)
  have st: "json_serializable ?tr"
    using assms(4) by simp
  have s: "json_serializable built"
    using st assms(2,3) json_representable_serializable b by simp
  have i: "json_image built = PDict ?kvs"
    using assms(2,3) json_representable_image b by simp
  have w: "within_limits env' (PDict ?kvs)"
    using assms(7) within_limits_json_image [of env' built] i by simp
  let ?fs' = "snd (save_checkpoint env now fs run_dir agent_state scan_config tracer_data)"
  have "?fs' (get_checkpoint_path run_dir) = Some (Doc (PDict ?kvs))"
    using save_try_success_files [OF assms(5) s assms(6,8,9,10), of fs run_dir] i
    by (simp add: save_checkpoint_files)
  then have "load_checkpoint env' ?fs' run_dir = Inr (Some (PDict ?kvs))"
    using assms(11,12,13) w
    by (intro load_checkpoint_accepts) (simp_all add: dict_get_def)
  then show ?thesis
    by (simp add: dict_get_def)
qed

theorem save_then_load_roundtrip_witness:
  "\<exists>checkpoint.
     load_checkpoint no_faults
       (snd (save_checkpoint no_faults ''2026-01-01T00:00:00+00:00'' no_files [''run'']
          example_agent example_config PNone)) [''run'']
       = Inr (Some checkpoint)
   \<and> py_get checkpoint ''scan_config'' PNone = Inr example_config
   \<and> py_get checkpoint ''agent_state'' PNone = Inr example_snapshot
   \<and> py_get checkpoint ''version'' PNone = Inr (PInt CHECKPOINT_VERSION)"
proof -
  have m: "model_dump example_agent = Some (Inr example_snapshot)"
    by (simp add: example_agent_def)
  have b: "build_checkpoint ''2026-01-01T00:00:00+00:00'' example_agent example_config PNone
             = Inr example_checkpoint"
    by (simp add: build_checkpoint_def example_agent_def example_checkpoint_def
        CHECKPOINT_VERSION_def)
  have r: "json_representable example_snapshot" "json_representable example_config"
      "json_serializable PNone"
    by (simp_all add: example_snapshot_def example_config_def)
  have n: "faults no_faults OpOpenWrite = None" "faults no_faults OpWrite = None"
      "faults no_faults OpReplace = None" "faults no_faults OpExists = None"
      "faults no_faults OpOpenRead = None" "faults no_faults OpRead = None"
    by (simp_all add: no_faults_def)
  show ?thesis
    by (rule save_then_load_roundtrip
        [OF m r b within_limits_examples(1) within_limits_examples(1) n])
qed

text \<open>
  C2 as stated holds for every scan configuration mapping. A mapping with a value that
  \<^verbatim>\<open>json\<close> cannot encode makes \<^verbatim>\<open>json.dump\<close> raise \<^verbatim>\<open>TypeError\<close>, which the save
  swallows before the rename: the load that follows finds no checkpoint.
\<close>

theorem save_unserializable_config_counterexample:
  "load_checkpoint no_faults
     (snd (save_checkpoint no_faults ''2026-01-01T00:00:00+00:00'' no_files [''run'']
        example_agent
        (PDict [(''targets'', PList [PStr ''a.com'']), (''output'', PObj ''Path'' None)])
        PNone)) [''run'']
   = Inr None"
proof -
  have "save_checkpoint no_faults ''2026-01-01T00:00:00+00:00'' no_files [''run'']
        example_agent
        (PDict [(''targets'', PList [PStr ''a.com'']), (''output'', PObj ''Path'' None)])
        PNone
      = (Inr (), no_files([''run'', ''checkpoint.tmp''] \<mapsto> Malformed))"
    by (simp add: save_checkpoint_def save_try_def save_prepare_def build_checkpoint_def
        example_agent_def example_snapshot_def temp_path_of_checkpoint open_write_def
        json_dump_def no_faults_def caught_def isinstance_exn_def)
  then show ?thesis
    by (simp add: load_checkpoint_def load_try_def no_files_def get_checkpoint_path_def
        no_faults_def)
qed

subsection \<open>Exceptions that reach the caller of load_checkpoint\<close>

text \<open>
  C3. A checkpoint file that holds the JSON array \<^verbatim>\<open>[]\<close>: \<^verbatim>\<open>checkpoint.get\<close> raises
  \<^verbatim>\<open>AttributeError\<close>, which is not among the exceptions the handler of
  \<^verbatim>\<open>load_checkpoint\<close> names, so it reaches the caller.
\<close>

theorem load_checkpoint_raises_on_list:
  "load_checkpoint no_faults (no_files([''run'', ''checkpoint.json''] \<mapsto> Doc (PList []))) [''run'']
     = Inl AttributeError"
  by (simp add: load_checkpoint_def load_try_def no_faults_def get_checkpoint_path_def
      json_load_def caught_def isinstance_exn_def)

text \<open>
  Where \<^verbatim>\<open>load_checkpoint\<close> does not raise: when the checkpoint file is absent, is not
  a JSON document, or holds a JSON object within the limits of the interpreter,
  \<^verbatim>\<open>load_checkpoint\<close> returns a checkpoint or absent in every environment whose
  faults are I/O errors.
\<close>

theorem load_checkpoint_never_raises_on_objects:
  assumes "io_errors_only env"
    and "fs (get_checkpoint_path run_dir) = None
         \<or> fs (get_checkpoint_path run_dir) = Some Malformed
         \<or> fs (get_checkpoint_path run_dir) = Some (Doc (PDict kvs))
            \<and> within_limits env (PDict kvs)"
  shows "\<exists>r. load_checkpoint env fs run_dir = Inr r"
proof -
  have os: "\<And>op e. faults env op = Some e \<Longrightarrow> e = OSError"
    using assms(1) io_errors_only_caught by blast
  show ?thesis
    using assms(2) os
    by (auto simp: load_checkpoint_def load_try_def json_load_def Let_def caught_def
        isinstance_exn_def within_limits_def split: option.splits sum.splits if_splits)
qed

theorem load_checkpoint_never_raises_on_objects_witness:
  "io_errors_only disk_full
   \<and> (no_files([''run'', ''checkpoint.json''] \<mapsto> Malformed)) (get_checkpoint_path [''run''])
       = Some Malformed
   \<and> (\<exists>r. load_checkpoint disk_full (no_files([''run'', ''checkpoint.json''] \<mapsto> Malformed))
          [''run''] = Inr r)"
proof -
  have e: "io_errors_only disk_full"
    by (rule io_errors_only_examples)
  have m: "(no_files([''run'', ''checkpoint.json''] \<mapsto> Malformed)) (get_checkpoint_path [''run''])
       = Some Malformed"
    by (simp add: get_checkpoint_path_def)
  show ?thesis
    using e m
      load_checkpoint_never_raises_on_objects
        [of disk_full "no_files([''run'', ''checkpoint.json''] \<mapsto> Malformed)" "[''run'']" "[]"]
    by blast
qed

subsection \<open>Exceptions that reach the caller of save_checkpoint\<close>

lemma save_prepare_raises:
  assumes "model_dump agent_state = Some r"
    and "\<forall>e. r = Inl e \<longrightarrow> caught [OSError, RuntimeError, TypeError, ValueError] e"
    and "io_errors_only env"
    and "fst (save_prepare env now fs run_dir agent_state scan_config tracer_data) = Inl e"
  shows "caught [OSError, RuntimeError, TypeError, ValueError] e"
proof -
  have os: "\<And>op x. faults env op = Some x \<Longrightarrow> x = OSError"
    using assms(3) io_errors_only_caught by blast
  show ?thesis
    using assms(1,2,4) os caught_by_save
    by (auto simp: save_prepare_def build_checkpoint_def temp_path_of_checkpoint
        open_write_def json_dump_def split: sum.splits option.splits if_splits)
qed

lemma path_replace_raises:
  assumes "io_errors_only env" and "fst (path_replace env fs src dst) = Inl e"
  shows "e = OSError"
proof -
  have os: "\<And>op x. faults env op = Some x \<Longrightarrow> x = OSError"
    using assms(1) io_errors_only_caught by blast
  show ?thesis
    using assms(2) os by (auto simp: path_replace_def split: option.splits)
qed

text \<open>
  C4 (as amended). For an agent state that has the snapshot interface (the method
  \<^verbatim>\<open>model_dump\<close>, which returns or raises one of the exceptions the handler names, a
  state that cannot be serialized among them, and the attribute \<^verbatim>\<open>iteration\<close>), every
  scan configuration and tracer data, and every environment whose faults are I/O
  errors, \<^verbatim>\<open>save_checkpoint\<close> returns without raising.
\<close>

theorem save_checkpoint_never_raises:
  assumes "model_dump agent_state = Some r"
    and "\<forall>e. r = Inl e \<longrightarrow> caught [OSError, RuntimeError, TypeError, ValueError] e"
    and "iteration agent_state = Some i"
    and "io_errors_only env"
  shows "fst (save_checkpoint env now fs run_dir agent_state scan_config tracer_data) = Inr ()"
proof -
  obtain r1 fs2 where sp: "save_prepare env now fs run_dir agent_state scan_config tracer_data = (r1, fs2)"
    by (cases "save_prepare env now fs run_dir agent_state scan_config tracer_data")
  show ?thesis
  proof (cases r1)
    case (Inl e)
    then have "caught [OSError, RuntimeError, TypeError, ValueError] e"
      using save_prepare_raises [OF assms(1,2,4), of now fs run_dir scan_config tracer_data e] sp
      by simp
    then show ?thesis
      using sp Inl by (simp add: save_checkpoint_def save_try_def)
  next
    case (Inr t)
    obtain r3 fs3 where pr: "path_replace env fs2 t (get_checkpoint_path run_dir) = (r3, fs3)"
      by (cases "path_replace env fs2 t (get_checkpoint_path run_dir)")
    show ?thesis
    proof (cases r3)
      case (Inl e)
      then have "e = OSError"
        using path_replace_raises [OF assms(4), of fs2 t "get_checkpoint_path run_dir" e] pr
        by simp
      then show ?thesis
        using sp \<open>r1 = Inr t\<close> pr Inl caught_by_save(1)
        by (simp add: save_checkpoint_def save_try_def)
    next
      case (Inr u)
      then show ?thesis
        using sp \<open>r1 = Inr t\<close> pr assms(3)
        by (simp add: save_checkpoint_def save_try_def)
    qed
  qed
qed

theorem save_checkpoint_never_raises_witness:
  "model_dump example_agent = Some (Inr example_snapshot)
   \<and> iteration example_agent = Some (PInt 5)
   \<and> io_errors_only disk_full
   \<and> fst (save_checkpoint disk_full ''2026-01-02T00:00:00+00:00'' example_fs [''run'']
        example_agent (PDict [(''output'', PObj ''Path'' None)]) PNone) = Inr ()"
proof -
  have m: "model_dump example_agent = Some (Inr example_snapshot)"
    by (simp add: example_agent_def)
  have c: "\<forall>e. Inr example_snapshot = Inl e \<longrightarrow> caught [OSError, RuntimeError, TypeError, ValueError] e"
    by simp
  have i: "iteration example_agent = Some (PInt 5)"
    by (simp add: example_agent_def)
  have e: "io_errors_only disk_full"
    by (rule io_errors_only_examples)
  show ?thesis
    using m i e save_checkpoint_never_raises [OF m c i e] by simp
qed

text \<open>
  C4 as stated holds for every agent state, also one without the snapshot interface.
  For an agent state without the method \<^verbatim>\<open>model_dump\<close> (a plain dictionary, say) the
  attribute lookup raises \<^verbatim>\<open>AttributeError\<close>, which is not among the exceptions the
  handler of \<^verbatim>\<open>save_checkpoint\<close> names, so it reaches the caller.
\<close>

theorem save_checkpoint_raises_without_model_dump:
  "save_checkpoint no_faults ''2026-01-01T00:00:00+00:00'' no_files [''run'']
     \<lparr>model_dump = None, iteration = None\<rparr> example_config PNone
   = (Inl AttributeError, no_files)"
  by (simp add: save_checkpoint_def save_try_def save_prepare_def build_checkpoint_def
      caught_def isinstance_exn_def)

subsection \<open>Exceptions that reach the caller of can_resume\<close>

text \<open>
  C5. A checkpoint that \<^verbatim>\<open>load_checkpoint\<close> accepts and whose \<^verbatim>\<open>agent_state\<close> is the
  string \<^verbatim>\<open>"abc"\<close>: \<^verbatim>\<open>agent_state_data.get\<close> raises \<^verbatim>\<open>AttributeError\<close>, and
  \<^verbatim>\<open>can_resume\<close> has no handler.
\<close>

theorem can_resume_raises_on_string_state:
  "can_resume no_faults
     (no_files([''run'', ''checkpoint.json''] \<mapsto>
        Doc (PDict [(''version'', PInt 1), (''scan_config'', example_config),
                    (''agent_state'', PStr ''abc'')])))
     [''run''] example_config
   = Inl AttributeError"
  by (simp add: can_resume_def load_checkpoint_def load_try_def no_faults_def
      get_checkpoint_path_def json_load_def dict_get_def CHECKPOINT_VERSION_def
      example_config_def small_int_to_str_ok)

text \<open>
  Where \<^verbatim>\<open>can_resume\<close> does not raise: for a checkpoint that \<^verbatim>\<open>load_checkpoint\<close>
  accepts and whose agent state and scan configuration are mappings, and a current scan
  configuration that is a mapping, \<^verbatim>\<open>can_resume\<close> returns a boolean when the two
  \<^verbatim>\<open>targets\<close> values have a length.
\<close>

theorem can_resume_returns_bool:
  assumes "load_checkpoint env fs run_dir = Inr (Some checkpoint)"
    and "py_get checkpoint ''agent_state'' (PDict []) = Inr (PDict agent_state_data)"
    and "py_get checkpoint ''scan_config'' (PDict []) = Inr (PDict saved_config)"
    and "py_len (dict_get saved_config ''targets'' (PList [])) = Inr n"
    and "py_len (dict_get current_scan_config ''targets'' (PList [])) = Inr m"
  shows "\<exists>b. can_resume env fs run_dir (PDict current_scan_config) = Inr b"
  using assms can_resume_after_load [OF assms(1)]
  by (auto simp: can_resume_def)

theorem can_resume_returns_bool_witness:
  "\<exists>b. can_resume no_faults example_fs [''run''] (PDict [(''targets'', PStr ''b.com'')]) = Inr b"
proof -
  have a: "py_get example_checkpoint ''agent_state'' (PDict [])
             = Inr (PDict [(''iteration'', PInt 5), (''completed'', PBool False)])"
    by (simp add: example_checkpoint_def example_snapshot_def dict_get_def)
  have s: "py_get example_checkpoint ''scan_config'' (PDict [])
             = Inr (PDict [(''targets'', PList [PStr ''a.com''])])"
    by (simp add: example_checkpoint_def example_config_def dict_get_def)
  have n: "py_len (dict_get [(''targets'', PList [PStr ''a.com''])] ''targets'' (PList [])) = Inr 1"
    by (simp add: dict_get_def)
  have m: "py_len (dict_get [(''targets'', PStr ''b.com'')] ''targets'' (PList [])) = Inr 5"
    by (simp add: dict_get_def)
  show ?thesis
    by (rule can_resume_returns_bool [OF load_example_fs a s n m])
qed

subsection \<open>The version and structure gate of load_checkpoint\<close>

lemma py_eq_int_version:
  "py_eq_int v CHECKPOINT_VERSION \<longleftrightarrow> v = PInt 1 \<or> v = PBool True \<or> v = PFloat (Finite 1)"
proof (cases v)
  case (PFloat f)
  then show ?thesis
    by (cases f) (simp_all add: CHECKPOINT_VERSION_def)
qed (auto simp: CHECKPOINT_VERSION_def)

lemma version_accepted:
  "py_eq_int (dict_get kvs ''version'' PNone) CHECKPOINT_VERSION \<longleftrightarrow>
     map_of kvs ''version'' \<in> {Some (PInt 1), Some (PBool True), Some (PFloat (Finite 1))}"
  by (cases "map_of kvs ''version''") (auto simp: py_eq_int_version dict_get_def)

text \<open>
  C6 (as amended). A checkpoint that \<^verbatim>\<open>load_checkpoint\<close> returns is the object stored
  in the file, unchanged (there is no migration); it has the keys \<^verbatim>\<open>scan_config\<close> and
  \<^verbatim>\<open>agent_state\<close>, and its version is one of the values that \<^verbatim>\<open>!=\<close> does not tell
  from the current version 1: the integer 1, the boolean \<^verbatim>\<open>true\<close> or the number
  \<^verbatim>\<open>1.0\<close>. For an object on disk within the limits of the interpreter: when its version
  is missing or is any other value (0, 2, a string), or one of the two keys is missing,
  the result is absent in every environment whose faults are I/O errors; otherwise, when
  no I/O call fails, the result is the object.
\<close>

theorem load_checkpoint_version_gate:
  "(load_checkpoint env fs run_dir = Inr (Some checkpoint) \<longrightarrow>
      fs (get_checkpoint_path run_dir) = Some (Doc checkpoint)
      \<and> (\<exists>kvs. checkpoint = PDict kvs
            \<and> map_of kvs ''version''
                \<in> {Some (PInt 1), Some (PBool True), Some (PFloat (Finite 1))}
            \<and> ''scan_config'' \<in> fst ` set kvs \<and> ''agent_state'' \<in> fst ` set kvs))
   \<and> (fs (get_checkpoint_path run_dir) = Some (Doc (PDict kvs'))
        \<and> io_errors_only env \<and> within_limits env (PDict kvs')
        \<and> (map_of kvs' ''version''
              \<notin> {Some (PInt 1), Some (PBool True), Some (PFloat (Finite 1))}
            \<or> ''scan_config'' \<notin> fst ` set kvs' \<or> ''agent_state'' \<notin> fst ` set kvs')
      \<longrightarrow> load_checkpoint env fs run_dir = Inr None)
   \<and> (fs (get_checkpoint_path run_dir) = Some (Doc (PDict kvs'))
        \<and> faults env OpExists = None \<and> faults env OpOpenRead = None
        \<and> faults env OpRead = None \<and> within_limits env (PDict kvs')
        \<and> map_of kvs' ''version''
              \<in> {Some (PInt 1), Some (PBool True), Some (PFloat (Finite 1))}
        \<and> ''scan_config'' \<in> fst ` set kvs' \<and> ''agent_state'' \<in> fst ` set kvs'
      \<longrightarrow> load_checkpoint env fs run_dir = Inr (Some (PDict kvs')))"
proof (intro conjI impI)
  assume l: "load_checkpoint env fs run_dir = Inr (Some checkpoint)"
  then show "fs (get_checkpoint_path run_dir) = Some (Doc checkpoint)"
    by (simp add: load_checkpoint_Some load_try_Some)
  from l obtain kvs where k: "checkpoint = PDict kvs"
      "py_eq_int (dict_get kvs ''version'' PNone) CHECKPOINT_VERSION"
      "''scan_config'' \<in> fst ` set kvs" "''agent_state'' \<in> fst ` set kvs"
    by (auto simp: load_checkpoint_Some load_try_Some)
  have "map_of kvs ''version'' \<in> {Some (PInt 1), Some (PBool True), Some (PFloat (Finite 1))}"
    using k(2) by (simp only: version_accepted)
  then show "\<exists>kvs. checkpoint = PDict kvs
            \<and> map_of kvs ''version''
                \<in> {Some (PInt 1), Some (PBool True), Some (PFloat (Finite 1))}
            \<and> ''scan_config'' \<in> fst ` set kvs \<and> ''agent_state'' \<in> fst ` set kvs"
    using k by blast
next
  assume a: "fs (get_checkpoint_path run_dir) = Some (Doc (PDict kvs'))
        \<and> io_errors_only env \<and> within_limits env (PDict kvs')
        \<and> (map_of kvs' ''version''
              \<notin> {Some (PInt 1), Some (PBool True), Some (PFloat (Finite 1))}
            \<or> ''scan_config'' \<notin> fst ` set kvs' \<or> ''agent_state'' \<notin> fst ` set kvs')"
  then have "\<not> (py_eq_int (dict_get kvs' ''version'' PNone) CHECKPOINT_VERSION
            \<and> ''scan_config'' \<in> fst ` set kvs' \<and> ''agent_state'' \<in> fst ` set kvs')"
    by (simp only: version_accepted) blast
  with a show "load_checkpoint env fs run_dir = Inr None"
    using load_checkpoint_rejects by blast
next
  assume a: "fs (get_checkpoint_path run_dir) = Some (Doc (PDict kvs'))
        \<and> faults env OpExists = None \<and> faults env OpOpenRead = None
        \<and> faults env OpRead = None \<and> within_limits env (PDict kvs')
        \<and> map_of kvs' ''version''
              \<in> {Some (PInt 1), Some (PBool True), Some (PFloat (Finite 1))}
        \<and> ''scan_config'' \<in> fst ` set kvs' \<and> ''agent_state'' \<in> fst ` set kvs'"
  then have "py_eq_int (dict_get kvs' ''version'' PNone) CHECKPOINT_VERSION"
    by (simp only: version_accepted)
  with a show "load_checkpoint env fs run_dir = Inr (Some (PDict kvs'))"
    by (intro load_checkpoint_accepts) simp_all
qed

theorem load_checkpoint_version_gate_witness:
  "load_checkpoint no_faults example_fs [''run''] = Inr (Some example_checkpoint)
   \<and> example_fs (get_checkpoint_path [''run'']) = Some (Doc example_checkpoint)
   \<and> io_errors_only no_faults
   \<and> load_checkpoint no_faults
        (no_files([''run'', ''checkpoint.json''] \<mapsto>
           Doc (PDict [(''version'', PInt 2), (''scan_config'', example_config),
                       (''agent_state'', example_snapshot)]))) [''run'']
      = Inr None
   \<and> load_checkpoint no_faults
        (no_files([''run'', ''checkpoint.json''] \<mapsto>
           Doc (PDict [(''version'', PInt 0), (''scan_config'', example_config),
                       (''agent_state'', example_snapshot)]))) [''run'']
      = Inr None
   \<and> load_checkpoint no_faults
        (no_files([''run'', ''checkpoint.json''] \<mapsto>
           Doc (PDict [(''version'', PInt 1), (''scan_config'', example_config)]))) [''run'']
      = Inr None"
proof -
  have e: "io_errors_only no_faults"
    by (rule io_errors_only_examples)
  have a: "example_fs (get_checkpoint_path [''run'']) = Some (Doc example_checkpoint)"
    using load_example_fs
      load_checkpoint_version_gate
        [of no_faults example_fs "[''run'']" example_checkpoint "[]", THEN conjunct1]
    by blast
  have w: "within_limits no_faults (PDict [(''version'', PInt 2), (''scan_config'', example_config),
                       (''agent_state'', example_snapshot)])"
      "within_limits no_faults (PDict [(''version'', PInt 0), (''scan_config'', example_config),
                       (''agent_state'', example_snapshot)])"
      "within_limits no_faults (PDict [(''version'', PInt 1), (''scan_config'', example_config)])"
    by (simp_all add: within_limits_def no_faults_def example_config_def example_snapshot_def
        small_int_to_str_ok)
  have v2: "load_checkpoint no_faults
        (no_files([''run'', ''checkpoint.json''] \<mapsto>
           Doc (PDict [(''version'', PInt 2), (''scan_config'', example_config),
                       (''agent_state'', example_snapshot)]))) [''run'']
      = Inr None"
    by (rule load_checkpoint_version_gate
        [of no_faults _ "[''run'']" example_checkpoint
          "[(''version'', PInt 2), (''scan_config'', example_config),
            (''agent_state'', example_snapshot)]",
         THEN conjunct2, THEN conjunct1, rule_format])
      (simp add: e w(1) get_checkpoint_path_def)
  have v0: "load_checkpoint no_faults
        (no_files([''run'', ''checkpoint.json''] \<mapsto>
           Doc (PDict [(''version'', PInt 0), (''scan_config'', example_config),
                       (''agent_state'', example_snapshot)]))) [''run'']
      = Inr None"
    by (rule load_checkpoint_version_gate
        [of no_faults _ "[''run'']" example_checkpoint
          "[(''version'', PInt 0), (''scan_config'', example_config),
            (''agent_state'', example_snapshot)]",
         THEN conjunct2, THEN conjunct1, rule_format])
      (simp add: e w(2) get_checkpoint_path_def)
  have m: "load_checkpoint no_faults
        (no_files([''run'', ''checkpoint.json''] \<mapsto>
           Doc (PDict [(''version'', PInt 1), (''scan_config'', example_config)]))) [''run'']
      = Inr None"
    by (rule load_checkpoint_version_gate
        [of no_faults _ "[''run'']" example_checkpoint
          "[(''version'', PInt 1), (''scan_config'', example_config)]",
         THEN conjunct2, THEN conjunct1, rule_format])
      (simp add: e w(3) get_checkpoint_path_def)
  show ?thesis
    using load_example_fs a e v2 v0 m by blast
qed

text \<open>
  C6 as stated says that every checkpoint that \<^verbatim>\<open>load_checkpoint\<close> returns has the
  version 1 exactly. A file whose version is the JSON value \<^verbatim>\<open>true\<close> is returned as
  it is, since \<^verbatim>\<open>True != 1\<close> is false in Python: the result is not absent and its
  version is \<^verbatim>\<open>true\<close>.
\<close>

theorem load_checkpoint_version_true_counterexample:
  "load_checkpoint no_faults
     (no_files([''run'', ''checkpoint.json''] \<mapsto>
        Doc (PDict [(''version'', PBool True), (''scan_config'', example_config),
                    (''agent_state'', example_snapshot)]))) [''run'']
   = Inr (Some (PDict [(''version'', PBool True), (''scan_config'', example_config),
                       (''agent_state'', example_snapshot)]))"
  by (simp add: load_checkpoint_def load_try_def no_faults_def get_checkpoint_path_def
      json_load_def dict_get_def CHECKPOINT_VERSION_def example_config_def
      example_snapshot_def small_int_to_str_ok)

subsection \<open>The gates of can_resume\<close>

text \<open>
  C7. When \<^verbatim>\<open>load_checkpoint\<close> accepts the checkpoint and its agent state is a mapping
  with \<^verbatim>\<open>completed = true\<close>, \<^verbatim>\<open>can_resume\<close> returns false for every current scan
  configuration.
\<close>

theorem can_resume_completed:
  assumes "load_checkpoint env fs run_dir = Inr (Some checkpoint)"
    and "py_get checkpoint ''agent_state'' (PDict []) = Inr (PDict agent_state_data)"
    and "map_of agent_state_data ''completed'' = Some (PBool True)"
  shows "can_resume env fs run_dir current_scan_config = Inr False"
  using assms can_resume_after_load [OF assms(1)]
  by (simp add: can_resume_def dict_get_def)

theorem can_resume_completed_witness:
  "can_resume no_faults
     (no_files([''run'', ''checkpoint.json''] \<mapsto>
        Doc (PDict [(''version'', PInt 1), (''scan_config'', example_config),
                    (''agent_state'', PDict [(''iteration'', PInt 9), (''completed'', PBool True)])])))
     [''run''] example_config
   = Inr False"
proof -
  let ?c = "PDict [(''version'', PInt 1), (''scan_config'', example_config),
                   (''agent_state'', PDict [(''iteration'', PInt 9), (''completed'', PBool True)])]"
  have l: "load_checkpoint no_faults (no_files([''run'', ''checkpoint.json''] \<mapsto> Doc ?c)) [''run'']
             = Inr (Some ?c)"
    by (simp add: load_checkpoint_def load_try_def no_faults_def get_checkpoint_path_def
        json_load_def dict_get_def CHECKPOINT_VERSION_def example_config_def
        small_int_to_str_ok)
  show ?thesis
    by (rule can_resume_completed [OF l, where agent_state_data = "[(''iteration'', PInt 9), (''completed'', PBool True)]"])
      (simp_all add: dict_get_def)
qed

text \<open>
  C8. For a checkpoint that \<^verbatim>\<open>load_checkpoint\<close> accepts, whose agent state is a mapping
  that is not completed and whose scan configuration is a mapping with a list of
  targets, and a current scan configuration with a list of targets, \<^verbatim>\<open>can_resume\<close>
  returns true exactly when the two lists have the same length; the targets themselves
  are not compared.
\<close>

theorem can_resume_target_count:
  assumes "load_checkpoint env fs run_dir = Inr (Some checkpoint)"
    and "py_get checkpoint ''agent_state'' (PDict []) = Inr (PDict agent_state_data)"
    and "\<not> py_truthy (dict_get agent_state_data ''completed'' (PBool False))"
    and "py_get checkpoint ''scan_config'' (PDict []) = Inr (PDict saved_config)"
    and "map_of saved_config ''targets'' = Some (PList saved_targets)"
    and "map_of current_scan_config ''targets'' = Some (PList current_targets)"
  shows "can_resume env fs run_dir (PDict current_scan_config)
           = Inr (length saved_targets = length current_targets)"
  using assms can_resume_after_load [OF assms(1)]
  by (simp add: can_resume_def dict_get_def)

theorem can_resume_target_count_witness:
  "can_resume no_faults example_fs [''run''] (PDict [(''targets'', PList [PStr ''b.com''])])
     = Inr True
   \<and> can_resume no_faults example_fs [''run'']
       (PDict [(''targets'', PList [PStr ''b.com'', PStr ''c.com''])])
     = Inr False"
proof -
  have a: "py_get example_checkpoint ''agent_state'' (PDict [])
             = Inr (PDict [(''iteration'', PInt 5), (''completed'', PBool False)])"
    by (simp add: example_checkpoint_def example_snapshot_def dict_get_def)
  have n: "\<not> py_truthy (dict_get [(''iteration'', PInt 5), (''completed'', PBool False)]
             ''completed'' (PBool False))"
    by (simp add: dict_get_def)
  have s: "py_get example_checkpoint ''scan_config'' (PDict [])
             = Inr (PDict [(''targets'', PList [PStr ''a.com''])])"
    by (simp add: example_checkpoint_def example_config_def dict_get_def)
  have t: "map_of [(''targets'', PList [PStr ''a.com''])] ''targets'' = Some (PList [PStr ''a.com''])"
    by simp
  show ?thesis
    using can_resume_target_count [OF load_example_fs a n s t,
        of "[(''targets'', PList [PStr ''b.com''])]" "[PStr ''b.com'']"]
      can_resume_target_count [OF load_example_fs a n s t,
        of "[(''targets'', PList [PStr ''b.com'', PStr ''c.com''])]" "[PStr ''b.com'', PStr ''c.com'']"]
    by simp
qed

text \<open>
  C10. For every checkpoint that \<^verbatim>\<open>load_checkpoint\<close> accepts and whose agent state and
  scan configuration are mappings: an agent state without the key \<^verbatim>\<open>completed\<close>
  counts as not completed, it gives the results of one whose \<^verbatim>\<open>completed\<close> is false;
  and when the run is not completed, a missing \<^verbatim>\<open>targets\<close> key, in the saved or in
  the current configuration, counts as a list of length 0: when both are missing
  \<^verbatim>\<open>can_resume\<close> returns true, when one is missing it returns whether the other
  value has the length 0. A completed run gives false whatever the targets are.
\<close>

theorem can_resume_defaults:
  assumes "load_checkpoint env fs run_dir = Inr (Some checkpoint)"
    and "py_get checkpoint ''agent_state'' (PDict []) = Inr (PDict agent_state_data)"
  shows "((map_of agent_state_data ''completed'' = None
           \<or> (\<exists>v. map_of agent_state_data ''completed'' = Some v \<and> \<not> py_truthy v))
          \<and> py_get checkpoint ''scan_config'' (PDict []) = Inr (PDict saved_config)
          \<longrightarrow>
            (map_of saved_config ''targets'' = None
               \<and> map_of current_scan_config ''targets'' = None
             \<longrightarrow> can_resume env fs run_dir (PDict current_scan_config) = Inr True)
          \<and> (map_of saved_config ''targets'' = None
               \<and> map_of current_scan_config ''targets'' = Some current_targets
               \<and> py_len current_targets = Inr m
             \<longrightarrow> can_resume env fs run_dir (PDict current_scan_config) = Inr (m = 0))
          \<and> (map_of saved_config ''targets'' = Some saved_targets
               \<and> py_len saved_targets = Inr n
               \<and> map_of current_scan_config ''targets'' = None
             \<longrightarrow> can_resume env fs run_dir (PDict current_scan_config) = Inr (n = 0))
          \<and> (map_of saved_config ''targets'' = Some saved_targets
               \<and> py_len saved_targets = Inr n
               \<and> map_of current_scan_config ''targets'' = Some current_targets
               \<and> py_len current_targets = Inr m
             \<longrightarrow> can_resume env fs run_dir (PDict current_scan_config) = Inr (n = m)))
       \<and> ((\<exists>v. map_of agent_state_data ''completed'' = Some v \<and> py_truthy v)
          \<longrightarrow> can_resume env fs run_dir any_scan_config = Inr False)"
proof (intro conjI impI)
  have t: "py_truthy checkpoint"
    using can_resume_after_load [OF assms(1)] .
  {
    assume "\<exists>v. map_of agent_state_data ''completed'' = Some v \<and> py_truthy v"
    then show "can_resume env fs run_dir any_scan_config = Inr False"
      using assms t by (auto simp: can_resume_def dict_get_def)
  }
  assume a: "(map_of agent_state_data ''completed'' = None
           \<or> (\<exists>v. map_of agent_state_data ''completed'' = Some v \<and> \<not> py_truthy v))
          \<and> py_get checkpoint ''scan_config'' (PDict []) = Inr (PDict saved_config)"
  then have nc: "\<not> py_truthy (dict_get agent_state_data ''completed'' (PBool False))"
    by (auto simp: dict_get_def)
  have r: "can_resume env fs run_dir (PDict current_scan_config)
             = (case py_len (dict_get saved_config ''targets'' (PList [])) of
                  Inl e \<Rightarrow> Inl e
                | Inr n \<Rightarrow>
                    (case py_len (dict_get current_scan_config ''targets'' (PList [])) of
                       Inl e \<Rightarrow> Inl e
                     | Inr m \<Rightarrow> Inr (n = m)))"
    using assms a nc t by (simp add: can_resume_def split: sum.splits)
  {
    assume "map_of saved_config ''targets'' = None
               \<and> map_of current_scan_config ''targets'' = None"
    then show "can_resume env fs run_dir (PDict current_scan_config) = Inr True"
      unfolding r by (simp add: dict_get_def)
  }
  {
    assume "map_of saved_config ''targets'' = None
               \<and> map_of current_scan_config ''targets'' = Some current_targets
               \<and> py_len current_targets = Inr m"
    then show "can_resume env fs run_dir (PDict current_scan_config) = Inr (m = 0)"
      unfolding r by (auto simp: dict_get_def)
  }
  {
    assume "map_of saved_config ''targets'' = Some saved_targets
               \<and> py_len saved_targets = Inr n
               \<and> map_of current_scan_config ''targets'' = None"
    then show "can_resume env fs run_dir (PDict current_scan_config) = Inr (n = 0)"
      unfolding r by (auto simp: dict_get_def)
  }
  {
    assume "map_of saved_config ''targets'' = Some saved_targets
               \<and> py_len saved_targets = Inr n
               \<and> map_of current_scan_config ''targets'' = Some current_targets
               \<and> py_len current_targets = Inr m"
    then show "can_resume env fs run_dir (PDict current_scan_config) = Inr (n = m)"
      unfolding r by (simp add: dict_get_def)
  }
qed

theorem can_resume_defaults_witness:
  "can_resume no_faults
     (no_files([''run'', ''checkpoint.json''] \<mapsto>
        Doc (PDict [(''version'', PInt 1), (''scan_config'', PDict []),
                    (''agent_state'', PDict [(''iteration'', PInt 3)])])))
     [''run''] (PDict [])
   = Inr True
   \<and> can_resume no_faults
     (no_files([''run'', ''checkpoint.json''] \<mapsto>
        Doc (PDict [(''version'', PInt 1), (''scan_config'', PDict []),
                    (''agent_state'', PDict [(''iteration'', PInt 3)])])))
     [''run''] (PDict [(''targets'', PList [PStr ''b.com''])])
   = Inr False
   \<and> can_resume no_faults
     (no_files([''run'', ''checkpoint.json''] \<mapsto>
        Doc (PDict [(''version'', PInt 1), (''scan_config'', PDict []),
                    (''agent_state'', PDict [(''completed'', PBool False)])])))
     [''run''] (PDict [])
   = Inr True"
proof -
  let ?c = "PDict [(''version'', PInt 1), (''scan_config'', PDict []),
                   (''agent_state'', PDict [(''iteration'', PInt 3)])]"
  let ?d = "PDict [(''version'', PInt 1), (''scan_config'', PDict []),
                   (''agent_state'', PDict [(''completed'', PBool False)])]"
  have l': "load_checkpoint no_faults (no_files([''run'', ''checkpoint.json''] \<mapsto> Doc ?d)) [''run'']
             = Inr (Some ?d)"
    by (simp add: load_checkpoint_def load_try_def no_faults_def get_checkpoint_path_def
        json_load_def dict_get_def CHECKPOINT_VERSION_def small_int_to_str_ok)
  have a': "py_get ?d ''agent_state'' (PDict []) = Inr (PDict [(''completed'', PBool False)])"
    by (simp add: dict_get_def)
  have s': "py_get ?d ''scan_config'' (PDict []) = Inr (PDict [])"
    by (simp add: dict_get_def)
  have third: "can_resume no_faults (no_files([''run'', ''checkpoint.json''] \<mapsto> Doc ?d)) [''run'']
          (PDict []) = Inr True"
    using can_resume_defaults [OF l' a', of "[]" "[]"] s' by simp
  have l: "load_checkpoint no_faults (no_files([''run'', ''checkpoint.json''] \<mapsto> Doc ?c)) [''run'']
             = Inr (Some ?c)"
    by (simp add: load_checkpoint_def load_try_def no_faults_def get_checkpoint_path_def
        json_load_def dict_get_def CHECKPOINT_VERSION_def small_int_to_str_ok)
  have a: "py_get ?c ''agent_state'' (PDict []) = Inr (PDict [(''iteration'', PInt 3)])"
    by (simp add: dict_get_def)
  have s: "py_get ?c ''scan_config'' (PDict []) = Inr (PDict [])"
    by (simp add: dict_get_def)
  have m: "map_of [(''iteration'', PInt 3)] ''completed'' = None"
    by simp
  have "can_resume no_faults (no_files([''run'', ''checkpoint.json''] \<mapsto> Doc ?c)) [''run'']
          (PDict []) = Inr True"
    using can_resume_defaults [OF l a, of "[]" "[]"] m s by simp
  moreover have "can_resume no_faults (no_files([''run'', ''checkpoint.json''] \<mapsto> Doc ?c)) [''run'']
          (PDict [(''targets'', PList [PStr ''b.com''])]) = Inr False"
    using can_resume_defaults [OF l a, of "[]" "[(''targets'', PList [PStr ''b.com''])]"
        "PList [PStr ''b.com'']" 1] m s
    by simp
  ultimately show ?thesis
    using third by blast
qed

subsection \<open>delete_checkpoint\<close>

lemma delete_checkpoint_never_raises:
  assumes "io_errors_only env"
  shows "fst (delete_checkpoint env fs run_dir) = Inr ()"
proof -
  have os: "\<And>op e. faults env op = Some e \<Longrightarrow> e = OSError"
    using assms io_errors_only_caught by blast
  show ?thesis
    using os
    by (auto simp: delete_checkpoint_def delete_try_def Let_def caught_def isinstance_exn_def
        split: option.splits)
qed

lemma delete_checkpoint_removes:
  assumes "faults env OpExists = None" and "faults env OpUnlink = None"
  shows "delete_checkpoint env fs run_dir = (Inr (), fs(get_checkpoint_path run_dir := None))"
  using assms
  by (auto simp: delete_checkpoint_def delete_try_def Let_def split: option.splits)

lemma delete_checkpoint_absent:
  assumes "fs (get_checkpoint_path run_dir) = None"
  shows "snd (delete_checkpoint env fs run_dir) = fs"
  using assms
  by (auto simp: delete_checkpoint_def delete_try_def Let_def split: option.splits)

lemma delete_checkpoint_twice:
  "delete_checkpoint env (snd (delete_checkpoint env fs run_dir)) run_dir
     = delete_checkpoint env fs run_dir"
  by (auto simp: delete_checkpoint_def delete_try_def Let_def split: option.splits)

text \<open>
  C9. \<^verbatim>\<open>delete_checkpoint\<close> never raises when the faults of the environment are I/O
  errors. When neither the existence test nor the unlink fails, the checkpoint file is
  gone afterwards, every other file is as before, and \<^verbatim>\<open>load_checkpoint\<close> returns
  absent. When there is no checkpoint file, the file system is unchanged. Deleting twice
  in the same environment gives the result and the file system of deleting once.
\<close>

theorem delete_checkpoint_idempotent:
  "(io_errors_only env \<longrightarrow> fst (delete_checkpoint env fs run_dir) = Inr ())
   \<and> (faults env OpExists = None \<and> faults env OpUnlink = None \<longrightarrow>
        snd (delete_checkpoint env fs run_dir) = fs(get_checkpoint_path run_dir := None)
        \<and> (io_errors_only env' \<longrightarrow>
             load_checkpoint env' (snd (delete_checkpoint env fs run_dir)) run_dir = Inr None))
   \<and> (fs (get_checkpoint_path run_dir) = None \<longrightarrow> snd (delete_checkpoint env fs run_dir) = fs)
   \<and> delete_checkpoint env (snd (delete_checkpoint env fs run_dir)) run_dir
       = delete_checkpoint env fs run_dir"
proof (intro conjI impI)
  assume "io_errors_only env"
  then show "fst (delete_checkpoint env fs run_dir) = Inr ()"
    by (rule delete_checkpoint_never_raises)
next
  assume a: "faults env OpExists = None \<and> faults env OpUnlink = None"
  then show r: "snd (delete_checkpoint env fs run_dir) = fs(get_checkpoint_path run_dir := None)"
    by (simp add: delete_checkpoint_removes)
  assume "io_errors_only env'"
  then show "load_checkpoint env' (snd (delete_checkpoint env fs run_dir)) run_dir = Inr None"
    using r by (intro load_checkpoint_absent) simp_all
next
  assume "fs (get_checkpoint_path run_dir) = None"
  then show "snd (delete_checkpoint env fs run_dir) = fs"
    by (rule delete_checkpoint_absent)
next
  show "delete_checkpoint env (snd (delete_checkpoint env fs run_dir)) run_dir
       = delete_checkpoint env fs run_dir"
    by (rule delete_checkpoint_twice)
qed

theorem delete_checkpoint_idempotent_witness:
  "io_errors_only no_faults
   \<and> io_errors_only unlink_denied
   \<and> fst (delete_checkpoint unlink_denied example_fs [''run'']) = Inr ()
   \<and> fst (delete_checkpoint no_faults example_fs [''run'']) = Inr ()
   \<and> snd (delete_checkpoint no_faults example_fs [''run'']) [''run'', ''checkpoint.json''] = None
   \<and> load_checkpoint no_faults (snd (delete_checkpoint no_faults example_fs [''run''])) [''run'']
       = Inr None
   \<and> no_files (get_checkpoint_path [''run'']) = None
   \<and> snd (delete_checkpoint no_faults no_files [''run'']) = no_files
   \<and> delete_checkpoint no_faults (snd (delete_checkpoint no_faults example_fs [''run''])) [''run'']
       = delete_checkpoint no_faults example_fs [''run'']"
proof -
  have e: "io_errors_only no_faults"
    by (rule io_errors_only_examples)
  have u: "faults no_faults OpExists = None \<and> faults no_faults OpUnlink = None"
    by (simp add: no_faults_def)
  have n: "no_files (get_checkpoint_path [''run'']) = None"
    by (simp add: no_files_def)
  have p: "get_checkpoint_path [''run''] = [''run'', ''checkpoint.json'']"
    by (simp add: get_checkpoint_path_def)
  note t1 = delete_checkpoint_idempotent [of no_faults example_fs "[''run'']" no_faults]
  note t2 = delete_checkpoint_idempotent [of no_faults no_files "[''run'']" no_faults]
  have e': "io_errors_only unlink_denied"
    by (rule io_errors_only_examples)
  have a0: "fst (delete_checkpoint unlink_denied example_fs [''run'']) = Inr ()"
    using delete_checkpoint_idempotent [of unlink_denied example_fs "[''run'']" no_faults] e'
    by blast
  have a1: "fst (delete_checkpoint no_faults example_fs [''run'']) = Inr ()"
    using t1 e by blast
  have a2: "snd (delete_checkpoint no_faults example_fs [''run''])
              = example_fs(get_checkpoint_path [''run''] := None)"
    using t1 u by blast
  have a3: "snd (delete_checkpoint no_faults example_fs [''run'']) [''run'', ''checkpoint.json''] = None"
    by (simp add: a2 p)
  have a4: "load_checkpoint no_faults (snd (delete_checkpoint no_faults example_fs [''run''])) [''run'']
              = Inr None"
    using t1 u e by blast
  have a5: "snd (delete_checkpoint no_faults no_files [''run'']) = no_files"
    using t2 n by blast
  have a6: "delete_checkpoint no_faults (snd (delete_checkpoint no_faults example_fs [''run''])) [''run'']
              = delete_checkpoint no_faults example_fs [''run'']"
    using t1 by blast
  show ?thesis
    using e e' a0 a1 a3 a4 n a5 a6 by blast
qed

end
